theory Spec2Isabelle
  imports Main "HOL-Library.Multiset" "HOL-Library.AList"
begin

section \<open>Go strings and the \<open>strings\<close> package\<close>

text \<open>
  A Go string is a sequence of bytes; it is modelled as \<open>string\<close> (a list of 8-bit
  \<open>char\<close>). The functions of package \<open>strings\<close> that the converter calls are written
  out below. \<open>TrimSpace\<close>, \<open>Fields\<close> and \<open>ToLower\<close> are modelled on their ASCII
  behaviour: the white space is tab, line feed, vertical tab, form feed, carriage
  return and space, and only the letters A to Z have a lower-case form; a byte
  above 0x7F is an ordinary byte without case.
\<close>

definition isSpace :: "char \<Rightarrow> bool" where
  "isSpace c = (c = CHR 0x09 \<or> c = CHR 0x0A \<or> c = CHR 0x0B \<or> c = CHR 0x0C
                \<or> c = CHR 0x0D \<or> c = CHR '' '')"

definition TrimSpace :: "string \<Rightarrow> string" where
  "TrimSpace s = rev (dropWhile isSpace (rev (dropWhile isSpace s)))"

definition toLowerByte :: "char \<Rightarrow> char" where
  "toLowerByte c =
     (case map_of (zip ''ABCDEFGHIJKLMNOPQRSTUVWXYZ'' ''abcdefghijklmnopqrstuvwxyz'') c of
        Some l \<Rightarrow> l
      | None \<Rightarrow> c)"

definition ToLower :: "string \<Rightarrow> string" where
  "ToLower s = map toLowerByte s"

definition HasPrefix :: "string \<Rightarrow> string \<Rightarrow> bool" where
  "HasPrefix s p = (take (length p) s = p)"

definition HasSuffix :: "string \<Rightarrow> string \<Rightarrow> bool" where
  "HasSuffix s p = (length p \<le> length s \<and> drop (length s - length p) s = p)"

definition TrimSuffix :: "string \<Rightarrow> string \<Rightarrow> string" where
  "TrimSuffix s p = (if HasSuffix s p then take (length s - length p) s else s)"

fun Contains :: "string \<Rightarrow> string \<Rightarrow> bool" where
  "Contains [] sub = (sub = [])"
| "Contains (c # cs) sub = (HasPrefix (c # cs) sub \<or> Contains cs sub)"

text \<open>\<open>strings.Index\<close> returns -1 when there is no occurrence: here \<open>None\<close>.\<close>

fun Index :: "string \<Rightarrow> string \<Rightarrow> nat option" where
  "Index [] sub = (if sub = [] then Some 0 else None)"
| "Index (c # cs) sub =
     (if HasPrefix (c # cs) sub then Some 0 else map_option Suc (Index cs sub))"

definition LastIndex :: "string \<Rightarrow> string \<Rightarrow> nat option" where
  "LastIndex s sub =
     (case Index (rev s) (rev sub) of
        None \<Rightarrow> None
      | Some i \<Rightarrow> Some (length s - length sub - i))"

text \<open>
  \<open>strings.Split\<close> is only called with a one-byte separator (line feed, comma); the
  separator is a \<open>char\<close> here. Splitting the empty string gives one empty piece.
\<close>

fun Split :: "string \<Rightarrow> char \<Rightarrow> string list" where
  "Split [] sep = [[]]"
| "Split (c # cs) sep =
     (if c = sep then [] # Split cs sep
      else (case Split cs sep of
              [] \<Rightarrow> [[c]]
            | p # ps \<Rightarrow> (c # p) # ps))"

text \<open>\<open>strings.SplitN(s, sep, 2)\<close>: cut at the first separator, if there is one.\<close>

definition SplitN2 :: "string \<Rightarrow> string \<Rightarrow> string list" where
  "SplitN2 s sep =
     (case Index s sep of
        None \<Rightarrow> [s]
      | Some i \<Rightarrow> [take i s, drop (i + length sep) s])"

fun fieldsFrom :: "string \<Rightarrow> string \<Rightarrow> string list" where
  "fieldsFrom cur [] = (if cur = [] then [] else [cur])"
| "fieldsFrom cur (c # cs) =
     (if isSpace c then (if cur = [] then fieldsFrom [] cs else cur # fieldsFrom [] cs)
      else fieldsFrom (cur @ [c]) cs)"

definition Fields :: "string \<Rightarrow> string list" where
  "Fields s = fieldsFrom [] s"

text \<open>\<open>strings.Trim(s, cutset)\<close> removes leading and trailing bytes of the cutset.\<close>

definition Trim :: "string \<Rightarrow> string \<Rightarrow> string" where
  "Trim s cutset =
     rev (dropWhile (\<lambda>c. c \<in> set cutset) (rev (dropWhile (\<lambda>c. c \<in> set cutset) s)))"

fun Join :: "string list \<Rightarrow> string \<Rightarrow> string" where
  "Join [] sep = []"
| "Join [p] sep = p"
| "Join (p # q # ps) sep = p @ sep @ Join (q # ps) sep"

section \<open>Helpers of the snippet converter\<close>

definition splitLines :: "string \<Rightarrow> string list" where
  "splitLines s = filter (\<lambda>t. t \<noteq> []) (map TrimSpace (Split s (CHR 0x0A)))"

definition directive :: "string \<Rightarrow> string" where
  "directive line = (case Fields line of [] \<Rightarrow> [] | f # _ \<Rightarrow> f)"

definition splitCSV :: "string \<Rightarrow> string list" where
  "splitCSV v = filter (\<lambda>s. s \<noteq> []) (map TrimSpace (Split v (CHR '','')))"

section \<open>The conditional-CORS detector\<close>

text \<open>
  \<open>isConditionalCORSSnippet\<close> runs over the lines with two flags and returns
  \<open>False\<close> from inside the loop at the first line that holds a disqualifying marker.
\<close>

fun isConditionalCORSLoop :: "bool \<Rightarrow> bool \<Rightarrow> string list \<Rightarrow> bool" where
  "isConditionalCORSLoop hasOriginIf hasMethods [] = (hasOriginIf \<and> hasMethods)"
| "isConditionalCORSLoop hasOriginIf hasMethods (raw # rest) =
     (let l = ToLower raw;
          hasOriginIf' = (hasOriginIf \<or> Contains l ''if ($http_origin'');
          hasMethods' = (hasMethods \<or> Contains l ''access-control-allow-methods'')
      in if Contains l ''rewrite'' \<or> Contains l ''proxy_pass'' \<or> Contains l ''fastcgi''
            \<or> Contains l ''lua_'' \<or> Contains l ''set ''
         then False
         else isConditionalCORSLoop hasOriginIf' hasMethods' rest)"

definition isConditionalCORSSnippet :: "string list \<Rightarrow> bool" where
  "isConditionalCORSSnippet lines = isConditionalCORSLoop False False lines"

section \<open>Parsing helpers\<close>

definition parseProxySetHeader :: "string \<Rightarrow> string \<times> string" where
  "parseProxySetHeader line0 =
     (let line = TrimSuffix line0 '';'';
          parts = Fields line
      in if length parts < 3 then ([], [])
         else (Trim (parts ! 1) [CHR 0x22], Join (drop 2 parts) '' ''))"

text \<open>
  \<open>parseResponseHeader\<close> returns key, value and a success flag; the failure
  \<open>("", "", false)\<close> is \<open>None\<close>. The prefix tests read the line in its original case.
\<close>

definition parseResponseHeader :: "string \<Rightarrow> (string \<times> string) option" where
  "parseResponseHeader line0 =
     (let line = TrimSuffix (TrimSpace line0) '';''
      in if HasPrefix line ''more_set_headers'' then
           (case (Index line [CHR 0x22], LastIndex line [CHR 0x22]) of
              (Some start, Some end) \<Rightarrow>
                if end \<le> start then None
                else (case SplitN2 (take (end - (start + 1)) (drop (start + 1) line)) '':'' of
                        [k, v] \<Rightarrow> Some (TrimSpace k, TrimSpace v)
                      | _ \<Rightarrow> None)
            | _ \<Rightarrow> None)
         else if HasPrefix line ''add_header'' then
           (let fields = Fields line
            in if length fields < 3 then None
               else Some (Trim (fields ! 1) [CHR 0x22],
                          Trim (Join (drop 2 fields) '' '') [CHR 0x22]))
         else None)"

subsection \<open>The origin pattern\<close>

text \<open>
  \<open>originIfRe\<close> is the regular expression
  \<^verbatim>\<open>\$http_origin\s+~\*\s+\((.+?)\)\s*\)\<close>.
  In Go's syntax \<^verbatim>\<open>\s\<close> is one of tab, line feed, form feed, carriage return
  and space, and \<^verbatim>\<open>.\<close> is any character but line feed. The matcher below is
  written for this one expression: a white-space run is followed by a character
  that is not white space, so the greedy run has one way to match; the lazy group
  takes the shortest non-empty text after which \<^verbatim>\<open>\)\s*\)\<close> matches.
  \<open>originIfRe_FindStringSubmatch\<close> tries the start positions from the left and
  gives the text of the group of the first match.
\<close>

definition isReSpace :: "char \<Rightarrow> bool" where
  "isReSpace c = (c = CHR 0x09 \<or> c = CHR 0x0A \<or> c = CHR 0x0C \<or> c = CHR 0x0D \<or> c = CHR '' '')"

definition reLiteral :: "string \<Rightarrow> string \<Rightarrow> string option" where
  "reLiteral p s = (if HasPrefix s p then Some (drop (length p) s) else None)"

definition reSpaces1 :: "string \<Rightarrow> string option" where
  "reSpaces1 s =
     (case s of
        [] \<Rightarrow> None
      | c # cs \<Rightarrow> if isReSpace c then Some (dropWhile isReSpace cs) else None)"

definition reGroupCloses :: "string \<Rightarrow> bool" where
  "reGroupCloses s = (case dropWhile isReSpace s of [] \<Rightarrow> False | c # _ \<Rightarrow> c = CHR 0x29)"

fun reLazyGroup :: "string \<Rightarrow> string \<Rightarrow> string option" where
  "reLazyGroup acc [] = None"
| "reLazyGroup acc (c # cs) =
     (if acc \<noteq> [] \<and> c = CHR 0x29 \<and> reGroupCloses cs then Some acc
      else if c = CHR 0x0A then None
      else reLazyGroup (acc @ [c]) cs)"

definition originIfRe_matchAt :: "string \<Rightarrow> string option" where
  "originIfRe_matchAt s =
     (case reLiteral ''$http_origin'' s of
        None \<Rightarrow> None
      | Some r1 \<Rightarrow>
     (case reSpaces1 r1 of
        None \<Rightarrow> None
      | Some r2 \<Rightarrow>
     (case reLiteral ''~*'' r2 of
        None \<Rightarrow> None
      | Some r3 \<Rightarrow>
     (case reSpaces1 r3 of
        None \<Rightarrow> None
      | Some r4 \<Rightarrow>
     (case reLiteral [CHR 0x28] r4 of
        None \<Rightarrow> None
      | Some r5 \<Rightarrow> reLazyGroup [] r5)))))"

fun originIfRe_FindStringSubmatch :: "string \<Rightarrow> string option" where
  "originIfRe_FindStringSubmatch [] = originIfRe_matchAt []"
| "originIfRe_FindStringSubmatch (c # cs) =
     (case originIfRe_matchAt (c # cs) of
        Some m \<Rightarrow> Some m
      | None \<Rightarrow> originIfRe_FindStringSubmatch cs)"

fun extractOriginRegex :: "string list \<Rightarrow> string option" where
  "extractOriginRegex [] = None"
| "extractOriginRegex (l # ls) =
     (case originIfRe_FindStringSubmatch l of
        Some m \<Rightarrow> Some m
      | None \<Rightarrow> extractOriginRegex ls)"

subsection \<open>Quoted values\<close>

text \<open>
  The inner loop of \<open>extractQuotedHeaderValue\<close> for one quote character: the text
  between a quote and the next one is a value, and the scan goes on after the
  closing quote; it stops when an opening or a closing quote is missing.
\<close>

function quotedValues :: "char \<Rightarrow> string \<Rightarrow> string list" where
  "quotedValues quote tmp =
     (case Index tmp [quote] of
        None \<Rightarrow> []
      | Some start \<Rightarrow>
          (case Index (drop (start + 1) tmp) [quote] of
             None \<Rightarrow> []
           | Some end \<Rightarrow>
               take end (drop (start + 1) tmp)
                 # quotedValues quote (drop (start + 1 + end + 1) tmp)))"
  by pat_completeness auto
termination
proof (relation "measure (\<lambda>(quote, tmp). length tmp)")
  show "wf (measure (\<lambda>(quote, tmp). length tmp))"
    by simp
next
  fix quote :: char and tmp :: string and start e :: nat
  assume found: "Index tmp [quote] = Some start"
  have bound: "i < length s" if "Index s [quote] = Some i" for s i
    using that by (induction s arbitrary: i) (auto simp: HasPrefix_def split: if_splits)
  from bound [OF found]
  show "((quote, drop (start + 1 + e + 1) tmp), (quote, tmp))
          \<in> measure (\<lambda>(quote, tmp). length tmp)"
    by simp
qed

text \<open>The outer loop runs the double quote first, then the single quote.\<close>

definition extractQuotedHeaderValue :: "string \<Rightarrow> string" where
  "extractQuotedHeaderValue line =
     (let values = quotedValues (CHR 0x22) line @ quotedValues (CHR 0x27) line
      in if values = [] then [] else last values)"

subsection \<open>Integers\<close>

text \<open>
  \<open>strconv.ParseInt(s, 10, 64)\<close> of the Go library, with its error. \<open>ParseUint\<close>
  reads the digits from the left into an unsigned 64-bit number (an \<open>int\<close> here, with
  the overflow tests of the library written on the unbounded value); a byte that is not
  a digit is a syntax error with value 0, and a number that no longer fits is a
  range error with the largest value. \<open>ParseInt\<close> takes an optional sign first and
  gives, on a range error, the largest or the smallest signed 64-bit number.
\<close>

datatype numError = ErrSyntax | ErrRange

definition isDigit :: "char \<Rightarrow> bool" where
  "isDigit c = (48 \<le> (of_char c :: int) \<and> (of_char c :: int) \<le> 57)"

definition maxUint64 :: int where
  "maxUint64 = 18446744073709551615"

fun parseUintLoop :: "int \<Rightarrow> string \<Rightarrow> int \<times> numError option" where
  "parseUintLoop n [] = (n, None)"
| "parseUintLoop n (c # cs) =
     (if \<not> isDigit c then (0, Some ErrSyntax)
      else if n \<ge> maxUint64 div 10 + 1 then (maxUint64, Some ErrRange)
      else (let n1 = n * 10 + (of_char c - 48)
            in if n1 > maxUint64 then (maxUint64, Some ErrRange)
               else parseUintLoop n1 cs))"

definition ParseUint :: "string \<Rightarrow> int \<times> numError option" where
  "ParseUint s = (if s = [] then (0, Some ErrSyntax) else parseUintLoop 0 s)"

definition ParseInt :: "string \<Rightarrow> int \<times> numError option" where
  "ParseInt s =
     (case s of
        [] \<Rightarrow> (0, Some ErrSyntax)
      | c # cs \<Rightarrow>
          (let neg = (c = CHR ''-'');
               digits = (if c = CHR ''+'' \<or> c = CHR ''-'' then cs else s);
               (un, err) = ParseUint digits
           in if err = Some ErrSyntax then (0, err)
              else if \<not> neg \<and> un \<ge> 9223372036854775808
                then (9223372036854775807, Some ErrRange)
              else if neg \<and> un > 9223372036854775808
                then (- 9223372036854775808, Some ErrRange)
              else (if neg then - un else un, None)))"

text \<open>\<open>extractInt\<close> drops the error of \<open>ParseInt\<close> and returns its number.\<close>

definition extractInt :: "string \<Rightarrow> int" where
  "extractInt line =
     (let fields = Fields line
      in if fields = [] then 0
         else fst (ParseInt (TrimSuffix (last fields) '';'')))"

section \<open>Output objects and the conversion context\<close>

text \<open>
  \<open>dynamic.Headers\<close> of the target proxy, with the fields the converter writes. A Go
  map from header name to value is an association list with distinct keys
  (\<open>AList.update\<close> overwrites the value of a key that is present), and \<open>len(m) == 0\<close>
  is \<open>m = []\<close>. A field the converter leaves out has Go's zero value.
\<close>

record Headers =
  CustomRequestHeaders :: "(string \<times> string) list"
  CustomResponseHeaders :: "(string \<times> string) list"
  AccessControlAllowCredentials :: bool
  AccessControlAllowHeaders :: "string list"
  AccessControlAllowMethods :: "string list"
  AccessControlAllowOriginListRegex :: "string list"
  AccessControlMaxAge :: int

definition zeroHeaders :: Headers where
  "zeroHeaders =
     \<lparr>CustomRequestHeaders = [], CustomResponseHeaders = [],
      AccessControlAllowCredentials = False, AccessControlAllowHeaders = [],
      AccessControlAllowMethods = [], AccessControlAllowOriginListRegex = [],
      AccessControlMaxAge = 0\<rparr>"

record Middleware =
  APIVersion :: string
  Kind :: string
  Name :: string
  MwNamespace :: string
  SpecHeaders :: Headers

text \<open>
  Modelled from the spec: the types \<open>configs.Context\<close> and its result object, which
  are declared outside the files at hand. The result holds "the ordered sequence of
  emitted middlewares and the ordered sequence of warnings"; the context holds the
  annotations, "a namespace/name context used to derive output object names" and
  the shared result. The logger of the context is left out: the converter only
  writes a debug line to it.
\<close>

record Result =
  Middlewares :: "Middleware list"
  Warnings :: "string list"

record Context =
  Annotations :: "string \<rightharpoonup> string"
  IngressName :: string
  Namespace :: string
  Result :: Result

text \<open>
  Modelled from the spec: \<open>mwName\<close>, defined outside the files at hand. "Output object
  name = <base-resource-name>-<fixed-suffix>".
\<close>

definition mwName :: "Context \<Rightarrow> string \<Rightarrow> string" where
  "mwName ctx name = IngressName ctx @ ''-'' @ name"

text \<open>\<open>traefik.SchemeGroupVersion.String()\<close> is the constant \<open>traefik.io/v1alpha1\<close>.\<close>

definition newHeadersMiddleware :: "Context \<Rightarrow> string \<Rightarrow> Headers \<Rightarrow> Middleware" where
  "newHeadersMiddleware ctx name headers =
     \<lparr>APIVersion = ''traefik.io/v1alpha1'', Kind = ''Middleware'',
      Name = mwName ctx name, MwNamespace = Namespace ctx, SpecHeaders = headers\<rparr>"

section \<open>Unsupported directives\<close>

record unsupportedDirective =
  Enterprise :: bool
  Message :: string

definition unsupported :: "string \<rightharpoonup> unsupportedDirective" where
  "unsupported = map_of
     [(''gzip'', \<lparr>Enterprise = False,
         Message = ''gzip is only configurable via middleware in Traefik and was ignored''\<rparr>),
      (''gzip_comp_level'', \<lparr>Enterprise = False,
         Message = ''gzip_comp_level is not configurable in Traefik''\<rparr>),
      (''gzip_types'', \<lparr>Enterprise = False,
         Message = ''gzip_types is not configurable in Traefik''\<rparr>),
      (''proxy_buffer_size'', \<lparr>Enterprise = False,
         Message = ''proxy_buffer_size is not supported in Traefik''\<rparr>),
      (''proxy_cache'', \<lparr>Enterprise = True,
         Message = ''proxy_cache is not supported in Traefik OSS''\<rparr>)]"

definition warnUnsupported :: "string list \<Rightarrow> unsupportedDirective \<Rightarrow> string list" where
  "warnUnsupported warnings d =
     (let msg = (if Enterprise d
                 then Message d @
                   ''. Traefik Enterprise provides an alternative, but it cannot be auto-converted.''
                 else Message d)
      in warnings @ [msg])"

section \<open>Generic snippet handling\<close>

text \<open>
  The local variables of \<open>convertGenericSnippet\<close>, and the body of its loop for one
  line.
\<close>

record genericState =
  reqHeaders :: "(string \<times> string) list"
  respHeaders :: "(string \<times> string) list"
  warnings :: "string list"

definition genericLine :: "genericState \<Rightarrow> string \<Rightarrow> genericState" where
  "genericLine st raw =
     (let line = TrimSpace raw
      in if line = [] then st
         else
          (let lower = ToLower line;
               d = directive lower
           in if d = ''add_header'' \<or> d = ''more_set_headers'' then
                (case parseResponseHeader line of
                   Some (k, v) \<Rightarrow> st\<lparr>respHeaders := AList.update k v (respHeaders st)\<rparr>
                 | None \<Rightarrow>
                     st\<lparr>warnings := warnings st @ [''failed to parse header directive: '' @ line]\<rparr>)
              else if d = ''proxy_set_header'' then
                (let (key, val) = parseProxySetHeader line;
                     st1 = (if key \<noteq> [] then st\<lparr>reqHeaders := AList.update key val (reqHeaders st)\<rparr>
                            else st)
                 in if Contains val ''$''
                    then st1\<lparr>warnings := warnings st1 @
                      [''proxy_set_header uses NGINX variables which are not evaluated by Traefik'']\<rparr>
                    else st1)
              else if d = ''gzip'' \<or> d = ''gzip_comp_level'' \<or> d = ''gzip_types''
                      \<or> d = ''proxy_buffer_size'' \<or> d = ''proxy_cache'' then
                (case unsupported (directive lower) of
                   Some u \<Rightarrow> st\<lparr>warnings := warnUnsupported (warnings st) u\<rparr>
                 | None \<Rightarrow> st)
              else
                st\<lparr>warnings := warnings st @
                  [''unsupported directive in configuration-snippet was ignored: '' @ line]\<rparr>))"

definition genericLoop :: "string list \<Rightarrow> genericState" where
  "genericLoop lines =
     foldl genericLine \<lparr>reqHeaders = [], respHeaders = [], warnings = []\<rparr> lines"

definition convertGenericSnippet :: "Context \<Rightarrow> string list \<Rightarrow> Context" where
  "convertGenericSnippet ctx lines =
     (let st = genericLoop lines;
          res = (Result ctx)\<lparr>Warnings := Warnings (Result ctx) @ warnings st\<rparr>
      in if reqHeaders st = [] \<and> respHeaders st = [] then ctx\<lparr>Result := res\<rparr>
         else ctx\<lparr>Result := res\<lparr>Middlewares := Middlewares res @
                [newHeadersMiddleware ctx ''snippet-headers''
                   (zeroHeaders\<lparr>CustomRequestHeaders := reqHeaders st,
                                CustomResponseHeaders := respHeaders st\<rparr>)]\<rparr>\<rparr>)"

section \<open>CORS handling\<close>

record corsConfig =
  OriginRegex :: string
  AllowHeaders :: "string list"
  AllowMethods :: "string list"
  AllowCreds :: "bool option"
  MaxAge :: int

datatype error = NoOriginRegex

text \<open>The body of the loop of \<open>parseConditionalCORSSnippet\<close> for one line.\<close>

definition corsLine :: "corsConfig \<Rightarrow> string \<Rightarrow> corsConfig" where
  "corsLine cfg raw =
     (let line = TrimSpace raw;
          lower = ToLower line
      in if Contains lower ''access-control-allow-headers'' then
           cfg\<lparr>AllowHeaders := splitCSV (extractQuotedHeaderValue line)\<rparr>
         else if Contains lower ''access-control-allow-methods'' then
           cfg\<lparr>AllowMethods := splitCSV (extractQuotedHeaderValue line)\<rparr>
         else if Contains lower ''access-control-allow-credentials'' then
           (let v = ToLower (extractQuotedHeaderValue line)
            in if v = ''true'' \<or> v = ''false'' then cfg\<lparr>AllowCreds := Some (v = ''true'')\<rparr>
               else cfg)
         else if Contains lower ''access-control-max-age'' then
           (let age = extractInt line
            in if age > 0 then cfg\<lparr>MaxAge := age\<rparr> else cfg)
         else cfg)"

definition corsLoop :: "string \<Rightarrow> string list \<Rightarrow> corsConfig" where
  "corsLoop origin lines =
     foldl corsLine
       \<lparr>OriginRegex = origin, AllowHeaders = [], AllowMethods = [], AllowCreds = None,
        MaxAge = 0\<rparr> lines"

definition parseConditionalCORSSnippet :: "string list \<Rightarrow> error + corsConfig" where
  "parseConditionalCORSSnippet lines =
     (case extractOriginRegex lines of
        None \<Rightarrow> Inl NoOriginRegex
      | Some origin \<Rightarrow>
          (let cfg = corsLoop origin lines
           in if AllowMethods cfg = []
              then Inr (cfg\<lparr>AllowMethods := [''GET'', ''POST'', ''PUT'', ''DELETE'', ''OPTIONS'']\<rparr>)
              else Inr cfg))"

definition emitCORSMiddleware :: "Context \<Rightarrow> corsConfig \<Rightarrow> Context" where
  "emitCORSMiddleware ctx cfg =
     (let headers = zeroHeaders\<lparr>AccessControlAllowMethods := AllowMethods cfg,
                                AccessControlAllowHeaders := AllowHeaders cfg,
                                AccessControlAllowOriginListRegex := [OriginRegex cfg],
                                AccessControlMaxAge := MaxAge cfg\<rparr>;
          headers1 = (case AllowCreds cfg of
                        Some b \<Rightarrow> headers\<lparr>AccessControlAllowCredentials := b\<rparr>
                      | None \<Rightarrow> headers);
          res1 = (Result ctx)\<lparr>Middlewares := Middlewares (Result ctx) @
                    [newHeadersMiddleware ctx ''cors'' headers1]\<rparr>;
          res2 = (if AllowHeaders cfg = [] \<or> AllowMethods cfg = []
                  then res1\<lparr>Warnings := Warnings res1 @
                    [''conditional CORS snippet was partially parsed; verify generated middleware'']\<rparr>
                  else res1)
      in ctx\<lparr>Result := res2\<lparr>Warnings := Warnings res2 @
           [''conditional NGINX CORS logic was converted to Traefik CORS middleware'']\<rparr>\<rparr>)"

section \<open>The converter\<close>

text \<open>
  \<open>ConfigurationSnippet\<close> receives the context by value and writes through its
  result pointer; the model returns the context with the result as it is after
  the call.
\<close>

definition ConfigurationSnippet :: "Context \<Rightarrow> Context" where
  "ConfigurationSnippet ctx =
     (case Annotations ctx ''nginx.ingress.kubernetes.io/configuration-snippet'' of
        None \<Rightarrow> ctx
      | Some snippet \<Rightarrow>
          (let lines = splitLines snippet
           in if lines = [] then ctx
              else if isConditionalCORSSnippet lines then
                (case parseConditionalCORSSnippet lines of
                   Inl err \<Rightarrow>
                     ctx\<lparr>Result := (Result ctx)\<lparr>Warnings := Warnings (Result ctx) @
                       [''failed to parse conditional CORS snippet; skipped'']\<rparr>\<rparr>
                 | Inr cfg \<Rightarrow> emitCORSMiddleware ctx cfg)
              else convertGenericSnippet ctx lines))"

section \<open>Inputs for the examples\<close>

text \<open>
  A context as a caller builds it for one ingress: the ingress \<open>app\<close> in namespace
  \<open>ns\<close>, the snippet annotation set to the given text, and a fresh result.
\<close>

definition snippetContext :: "string \<Rightarrow> Context" where
  "snippetContext snippet =
     \<lparr>Annotations = [''nginx.ingress.kubernetes.io/configuration-snippet'' \<mapsto> snippet],
      IngressName = ''app'', Namespace = ''ns'',
      Result = \<lparr>Middlewares = [], Warnings = []\<rparr>\<rparr>"

section \<open>Properties\<close>

subsection \<open>The detector\<close>

lemma isConditionalCORSLoop_char:
  "isConditionalCORSLoop a b lines \<longleftrightarrow>
     (a \<or> (\<exists>l \<in> set lines. Contains (ToLower l) ''if ($http_origin''))
   \<and> (b \<or> (\<exists>l \<in> set lines. Contains (ToLower l) ''access-control-allow-methods''))
   \<and> (\<forall>l \<in> set lines. \<not> (Contains (ToLower l) ''rewrite''
          \<or> Contains (ToLower l) ''proxy_pass'' \<or> Contains (ToLower l) ''fastcgi''
          \<or> Contains (ToLower l) ''lua_'' \<or> Contains (ToLower l) ''set ''))"
proof (induction lines arbitrary: a b)
  case Nil
  show ?case by simp
next
  case (Cons raw rest)
  show ?case
    unfolding isConditionalCORSLoop.simps Let_def
    by (simp only: Cons.IH if_False if_True split: if_split) (auto simp del: Contains.simps)
qed

lemma isConditionalCORSSnippet_char:
  "isConditionalCORSSnippet lines \<longleftrightarrow>
     (\<exists>l \<in> set lines. Contains (ToLower l) ''if ($http_origin'')
   \<and> (\<exists>l \<in> set lines. Contains (ToLower l) ''access-control-allow-methods'')
   \<and> \<not> (\<exists>l \<in> set lines. Contains (ToLower l) ''rewrite''
          \<or> Contains (ToLower l) ''proxy_pass'' \<or> Contains (ToLower l) ''fastcgi''
          \<or> Contains (ToLower l) ''lua_'' \<or> Contains (ToLower l) ''set '')"
  unfolding isConditionalCORSSnippet_def isConditionalCORSLoop_char by simp

lemma isConditionalCORSSnippet_nonempty: "isConditionalCORSSnippet lines \<Longrightarrow> lines \<noteq> []"
  by (auto simp: isConditionalCORSSnippet_def)

text \<open>
  Claim C1. The detector answers true exactly when some lower-cased line contains
  the origin guard \<open>if ($http_origin\<close>, some lower-cased line contains
  \<open>access-control-allow-methods\<close>, and no lower-cased line contains one of the
  markers \<open>rewrite\<close>, \<open>proxy_pass\<close>, \<open>fastcgi\<close>, \<open>lua_\<close> and \<open>set\<close> followed by a
  space; two line lists that are permutations of each other get the same answer.
\<close>

theorem isConditionalCORSSnippet_signals:
  "(isConditionalCORSSnippet lines \<longleftrightarrow>
      (\<exists>l \<in> set lines. Contains (ToLower l) ''if ($http_origin'')
    \<and> (\<exists>l \<in> set lines. Contains (ToLower l) ''access-control-allow-methods'')
    \<and> \<not> (\<exists>l \<in> set lines. Contains (ToLower l) ''rewrite''
           \<or> Contains (ToLower l) ''proxy_pass'' \<or> Contains (ToLower l) ''fastcgi''
           \<or> Contains (ToLower l) ''lua_'' \<or> Contains (ToLower l) ''set ''))
   \<and> (mset lines' = mset lines \<longrightarrow>
        isConditionalCORSSnippet lines' = isConditionalCORSSnippet lines)"
proof (intro conjI impI)
  show "isConditionalCORSSnippet lines \<longleftrightarrow>
      (\<exists>l \<in> set lines. Contains (ToLower l) ''if ($http_origin'')
    \<and> (\<exists>l \<in> set lines. Contains (ToLower l) ''access-control-allow-methods'')
    \<and> \<not> (\<exists>l \<in> set lines. Contains (ToLower l) ''rewrite''
           \<or> Contains (ToLower l) ''proxy_pass'' \<or> Contains (ToLower l) ''fastcgi''
           \<or> Contains (ToLower l) ''lua_'' \<or> Contains (ToLower l) ''set '')"
    by (rule isConditionalCORSSnippet_char)
next
  assume "mset lines' = mset lines"
  then have "set lines' = set lines"
    by (rule mset_eq_setD)
  then show "isConditionalCORSSnippet lines' = isConditionalCORSSnippet lines"
    by (simp only: isConditionalCORSSnippet_char)
qed

theorem isConditionalCORSSnippet_signals_witness:
  "mset [''add_header Access-Control-Allow-Methods GET;'', ''if ($http_origin ~* (x)) {'']
     = mset [''if ($http_origin ~* (x)) {'', ''add_header Access-Control-Allow-Methods GET;'']
   \<and> isConditionalCORSSnippet
         [''add_header Access-Control-Allow-Methods GET;'', ''if ($http_origin ~* (x)) {'']"
proof -
  have perm:
    "mset [''add_header Access-Control-Allow-Methods GET;'', ''if ($http_origin ~* (x)) {'']
       = mset [''if ($http_origin ~* (x)) {'', ''add_header Access-Control-Allow-Methods GET;'']"
    by simp
  have guard: "Contains (ToLower ''if ($http_origin ~* (x)) {'') ''if ($http_origin''"
    by code_simp
  have methods:
    "Contains (ToLower ''add_header Access-Control-Allow-Methods GET;'')
       ''access-control-allow-methods''"
    by code_simp
  have clean:
    "\<not> (\<exists>l \<in> set [''if ($http_origin ~* (x)) {'',
                     ''add_header Access-Control-Allow-Methods GET;''].
          Contains (ToLower l) ''rewrite'' \<or> Contains (ToLower l) ''proxy_pass''
          \<or> Contains (ToLower l) ''fastcgi'' \<or> Contains (ToLower l) ''lua_''
          \<or> Contains (ToLower l) ''set '')"
    by code_simp
  from isConditionalCORSSnippet_signals
         [of "[''if ($http_origin ~* (x)) {'', ''add_header Access-Control-Allow-Methods GET;'']"
             "[''add_header Access-Control-Allow-Methods GET;'', ''if ($http_origin ~* (x)) {'']"]
       perm guard methods clean
  show ?thesis
    by (simp del: Contains.simps)
qed

subsection \<open>What one call appends\<close>

lemma extractOriginRegex_None:
  "extractOriginRegex lines = None \<longleftrightarrow>
     (\<forall>l \<in> set lines. originIfRe_FindStringSubmatch l = None)"
  by (induction lines) (auto split: option.splits)

lemma convertGenericSnippet_appends:
  "\<exists>ms ws. convertGenericSnippet ctx lines =
     ctx\<lparr>Result := (Result ctx)\<lparr>Middlewares := Middlewares (Result ctx) @ ms,
                                  Warnings := Warnings (Result ctx) @ ws\<rparr>\<rparr>
     \<and> (ms = [] \<or> (\<exists>h. ms = [newHeadersMiddleware ctx ''snippet-headers'' h]))"
proof (cases "reqHeaders (genericLoop lines) = [] \<and> respHeaders (genericLoop lines) = []")
  case True
  then have "convertGenericSnippet ctx lines =
     ctx\<lparr>Result := (Result ctx)\<lparr>Middlewares := Middlewares (Result ctx) @ [],
                                  Warnings := Warnings (Result ctx) @ warnings (genericLoop lines)\<rparr>\<rparr>"
    by (simp add: convertGenericSnippet_def Let_def)
  then show ?thesis by blast
next
  case False
  then have "convertGenericSnippet ctx lines =
     ctx\<lparr>Result := (Result ctx)\<lparr>Middlewares := Middlewares (Result ctx)
          @ [newHeadersMiddleware ctx ''snippet-headers''
               (zeroHeaders\<lparr>CustomRequestHeaders := reqHeaders (genericLoop lines),
                            CustomResponseHeaders := respHeaders (genericLoop lines)\<rparr>)],
          Warnings := Warnings (Result ctx) @ warnings (genericLoop lines)\<rparr>\<rparr>"
    by (simp add: convertGenericSnippet_def Let_def)
  then show ?thesis by blast
qed

lemma emitCORSMiddleware_eq:
  "emitCORSMiddleware ctx cfg =
     ctx\<lparr>Result := (Result ctx)\<lparr>
        Middlewares := Middlewares (Result ctx) @
          [newHeadersMiddleware ctx ''cors''
             (zeroHeaders\<lparr>AccessControlAllowMethods := AllowMethods cfg,
                          AccessControlAllowHeaders := AllowHeaders cfg,
                          AccessControlAllowOriginListRegex := [OriginRegex cfg],
                          AccessControlMaxAge := MaxAge cfg,
                          AccessControlAllowCredentials :=
                            (case AllowCreds cfg of Some b \<Rightarrow> b | None \<Rightarrow> False)\<rparr>)],
        Warnings := Warnings (Result ctx) @
          (if AllowHeaders cfg = [] \<or> AllowMethods cfg = []
           then [''conditional CORS snippet was partially parsed; verify generated middleware'']
           else []) @
          [''conditional NGINX CORS logic was converted to Traefik CORS middleware'']\<rparr>\<rparr>"
  by (cases "AllowCreds cfg") (simp_all add: emitCORSMiddleware_def Let_def zeroHeaders_def)

lemma emitCORSMiddleware_appends:
  "\<exists>ms ws. emitCORSMiddleware ctx cfg =
     ctx\<lparr>Result := (Result ctx)\<lparr>Middlewares := Middlewares (Result ctx) @ ms,
                                  Warnings := Warnings (Result ctx) @ ws\<rparr>\<rparr>
     \<and> (\<exists>h. ms = [newHeadersMiddleware ctx ''cors'' h])"
  unfolding emitCORSMiddleware_eq by blast

lemma ConfigurationSnippet_appends:
  "\<exists>ms ws. ConfigurationSnippet ctx =
     ctx\<lparr>Result := (Result ctx)\<lparr>Middlewares := Middlewares (Result ctx) @ ms,
                                  Warnings := Warnings (Result ctx) @ ws\<rparr>\<rparr>
     \<and> (ms = [] \<or> (\<exists>h. ms = [newHeadersMiddleware ctx ''snippet-headers'' h])
                \<or> (\<exists>h. ms = [newHeadersMiddleware ctx ''cors'' h]))"
proof -
  have unchanged: "ctx =
     ctx\<lparr>Result := (Result ctx)\<lparr>Middlewares := Middlewares (Result ctx) @ [],
                                  Warnings := Warnings (Result ctx) @ []\<rparr>\<rparr>"
    by simp
  have warned: "ctx\<lparr>Result := (Result ctx)\<lparr>Warnings := Warnings (Result ctx) @ ws\<rparr>\<rparr> =
     ctx\<lparr>Result := (Result ctx)\<lparr>Middlewares := Middlewares (Result ctx) @ [],
                                  Warnings := Warnings (Result ctx) @ ws\<rparr>\<rparr>" for ws
    by simp
  show ?thesis
  proof (cases "Annotations ctx ''nginx.ingress.kubernetes.io/configuration-snippet''")
    case None
    then have "ConfigurationSnippet ctx = ctx"
      by (simp add: ConfigurationSnippet_def)
    with unchanged show ?thesis by metis
  next
    case (Some snippet)
    consider (empty) "splitLines snippet = []"
      | (failed) "splitLines snippet \<noteq> []" "isConditionalCORSSnippet (splitLines snippet)"
          "\<exists>e. parseConditionalCORSSnippet (splitLines snippet) = Inl e"
      | (cors) cfg where "splitLines snippet \<noteq> []" "isConditionalCORSSnippet (splitLines snippet)"
          "parseConditionalCORSSnippet (splitLines snippet) = Inr cfg"
      | (generic) "splitLines snippet \<noteq> []" "\<not> isConditionalCORSSnippet (splitLines snippet)"
      by (cases "parseConditionalCORSSnippet (splitLines snippet)") blast+
    then show ?thesis
    proof cases
      case empty
      with Some have "ConfigurationSnippet ctx = ctx"
        by (simp add: ConfigurationSnippet_def)
      with unchanged show ?thesis by metis
    next
      case failed
      with Some have "ConfigurationSnippet ctx =
         ctx\<lparr>Result := (Result ctx)\<lparr>Warnings := Warnings (Result ctx) @
                 [''failed to parse conditional CORS snippet; skipped'']\<rparr>\<rparr>"
        by (auto simp: ConfigurationSnippet_def)
      with warned show ?thesis by metis
    next
      case cors
      with Some have "ConfigurationSnippet ctx = emitCORSMiddleware ctx cfg"
        by (simp add: ConfigurationSnippet_def)
      with emitCORSMiddleware_appends [of ctx cfg] show ?thesis by metis
    next
      case generic
      with Some have "ConfigurationSnippet ctx = convertGenericSnippet ctx (splitLines snippet)"
        by (simp add: ConfigurationSnippet_def)
      with convertGenericSnippet_appends [of ctx "splitLines snippet"] show ?thesis by metis
    qed
  qed
qed


lemma ConfigurationSnippet_cors_path:
  assumes "Annotations ctx ''nginx.ingress.kubernetes.io/configuration-snippet'' = Some snippet"
    and "isConditionalCORSSnippet (splitLines snippet)"
  shows "ConfigurationSnippet ctx =
     (case parseConditionalCORSSnippet (splitLines snippet) of
        Inl err \<Rightarrow> ctx\<lparr>Result := (Result ctx)\<lparr>Warnings := Warnings (Result ctx) @
                     [''failed to parse conditional CORS snippet; skipped'']\<rparr>\<rparr>
      | Inr cfg \<Rightarrow> emitCORSMiddleware ctx cfg)"
  using assms isConditionalCORSSnippet_nonempty [of "splitLines snippet"]
  by (simp add: ConfigurationSnippet_def)

lemma newHeadersMiddleware_suffix_differs:
  "newHeadersMiddleware ctx ''snippet-headers'' h \<noteq> newHeadersMiddleware ctx ''cors'' h'"
  by (simp add: newHeadersMiddleware_def mwName_def)

text \<open>
  Claim C2. One call of \<open>ConfigurationSnippet\<close> appends at most one middleware to the
  result: nothing, or one \<open>snippet-headers\<close> middleware of the generic pass, or one
  \<open>cors\<close> middleware of the CORS pass, and never one of each. The two kinds differ
  in their names.
\<close>

theorem ConfigurationSnippet_at_most_one_middleware:
  "\<exists>ms. Middlewares (Result (ConfigurationSnippet ctx)) = Middlewares (Result ctx) @ ms
      \<and> length ms \<le> 1
      \<and> (ms = [] \<or> (\<exists>h. ms = [newHeadersMiddleware ctx ''snippet-headers'' h])
                 \<or> (\<exists>h. ms = [newHeadersMiddleware ctx ''cors'' h]))
      \<and> \<not> ((\<exists>h. newHeadersMiddleware ctx ''snippet-headers'' h \<in> set ms)
            \<and> (\<exists>h. newHeadersMiddleware ctx ''cors'' h \<in> set ms))"
proof -
  from ConfigurationSnippet_appends [of ctx]
  obtain ms ws where eq: "ConfigurationSnippet ctx =
     ctx\<lparr>Result := (Result ctx)\<lparr>Middlewares := Middlewares (Result ctx) @ ms,
                                  Warnings := Warnings (Result ctx) @ ws\<rparr>\<rparr>"
    and shape: "ms = [] \<or> (\<exists>h. ms = [newHeadersMiddleware ctx ''snippet-headers'' h])
                \<or> (\<exists>h. ms = [newHeadersMiddleware ctx ''cors'' h])"
    by blast
  from eq have "Middlewares (Result (ConfigurationSnippet ctx)) = Middlewares (Result ctx) @ ms"
    by simp
  moreover from shape have len: "length ms \<le> 1"
    by auto
  moreover have "\<not> ((\<exists>h. newHeadersMiddleware ctx ''snippet-headers'' h \<in> set ms)
            \<and> (\<exists>h. newHeadersMiddleware ctx ''cors'' h \<in> set ms))"
  proof
    assume "(\<exists>h. newHeadersMiddleware ctx ''snippet-headers'' h \<in> set ms)
            \<and> (\<exists>h. newHeadersMiddleware ctx ''cors'' h \<in> set ms)"
    then obtain h h' where "newHeadersMiddleware ctx ''snippet-headers'' h \<in> set ms"
      and "newHeadersMiddleware ctx ''cors'' h' \<in> set ms"
      by blast
    with \<open>length ms \<le> 1\<close>
    have "newHeadersMiddleware ctx ''snippet-headers'' h = newHeadersMiddleware ctx ''cors'' h'"
      by (cases ms) auto
    with newHeadersMiddleware_suffix_differs show False
      by blast
  qed
  ultimately show ?thesis
    using shape by blast
qed

text \<open>
  Claim C9. \<open>ConfigurationSnippet\<close> changes the context only in the result, and
  there only by appending: the middlewares and the warnings after the call are
  those before the call followed by new ones, and the annotations, the name and
  the namespace are as before.
\<close>

theorem ConfigurationSnippet_only_appends:
  "\<exists>ms ws. ConfigurationSnippet ctx =
     ctx\<lparr>Result := (Result ctx)\<lparr>Middlewares := Middlewares (Result ctx) @ ms,
                                  Warnings := Warnings (Result ctx) @ ws\<rparr>\<rparr>"
  using ConfigurationSnippet_appends [of ctx] by blast

text \<open>
  Claim C3. When the detector accepts the lines of the snippet and no line matches
  the origin pattern, \<open>ConfigurationSnippet\<close> returns the context with the single
  warning \<open>failed to parse conditional CORS snippet; skipped\<close> appended and nothing
  else changed: no middleware is added.
\<close>

theorem ConfigurationSnippet_no_origin_regex:
  assumes "Annotations ctx ''nginx.ingress.kubernetes.io/configuration-snippet'' = Some snippet"
    and "isConditionalCORSSnippet (splitLines snippet)"
    and "\<forall>l \<in> set (splitLines snippet). originIfRe_FindStringSubmatch l = None"
  shows "ConfigurationSnippet ctx =
     ctx\<lparr>Result := (Result ctx)\<lparr>Warnings := Warnings (Result ctx) @
            [''failed to parse conditional CORS snippet; skipped'']\<rparr>\<rparr>"
proof -
  from assms(3) have "extractOriginRegex (splitLines snippet) = None"
    by (simp only: extractOriginRegex_None)
  then have "parseConditionalCORSSnippet (splitLines snippet) = Inl NoOriginRegex"
    by (simp add: parseConditionalCORSSnippet_def)
  with ConfigurationSnippet_cors_path [OF assms(1,2)] show ?thesis
    by simp
qed

theorem ConfigurationSnippet_no_origin_regex_witness:
  "Result (ConfigurationSnippet (snippetContext
      (''IF ($HTTP_ORIGIN ~* (https://a.example)) {'' @ [CHR 0x0A]
        @ ''add_header Access-Control-Allow-Methods GET;'' @ [CHR 0x0A] @ ''}'')))
   = \<lparr>Middlewares = [], Warnings = [''failed to parse conditional CORS snippet; skipped'']\<rparr>"
proof -
  let ?s = "''IF ($HTTP_ORIGIN ~* (https://a.example)) {'' @ [CHR 0x0A]
        @ ''add_header Access-Control-Allow-Methods GET;'' @ [CHR 0x0A] @ ''}''"
  have ann: "Annotations (snippetContext ?s)
               ''nginx.ingress.kubernetes.io/configuration-snippet'' = Some ?s"
    by (simp add: snippetContext_def)
  have det: "isConditionalCORSSnippet (splitLines ?s)"
    by code_simp
  have nomatch: "\<forall>l \<in> set (splitLines ?s). originIfRe_FindStringSubmatch l = None"
    by code_simp
  from ConfigurationSnippet_no_origin_regex [OF ann det nomatch] show ?thesis
    by (simp add: snippetContext_def)
qed


subsection \<open>The CORS configuration\<close>

lemma parseConditionalCORSSnippet_methods:
  assumes "parseConditionalCORSSnippet lines = Inr cfg"
  shows "AllowMethods cfg \<noteq> []"
  using assms
  by (auto simp: parseConditionalCORSSnippet_def Let_def split: option.splits if_splits)

lemma emitCORSMiddleware_methods:
  "\<exists>h. Middlewares (Result (emitCORSMiddleware ctx cfg))
           = Middlewares (Result ctx) @ [newHeadersMiddleware ctx ''cors'' h]
      \<and> AccessControlAllowMethods h = AllowMethods cfg"
proof -
  let ?h = "zeroHeaders\<lparr>AccessControlAllowMethods := AllowMethods cfg,
                          AccessControlAllowHeaders := AllowHeaders cfg,
                          AccessControlAllowOriginListRegex := [OriginRegex cfg],
                          AccessControlMaxAge := MaxAge cfg,
                          AccessControlAllowCredentials :=
                            (case AllowCreds cfg of Some b \<Rightarrow> b | None \<Rightarrow> False)\<rparr>"
  have "Middlewares (Result (emitCORSMiddleware ctx cfg))
           = Middlewares (Result ctx) @ [newHeadersMiddleware ctx ''cors'' ?h]"
    by (simp add: emitCORSMiddleware_eq)
  moreover have "AccessControlAllowMethods ?h = AllowMethods cfg"
    by simp
  ultimately show ?thesis
    by blast
qed

text \<open>
  Claim C10. A configuration that \<open>parseConditionalCORSSnippet\<close> returns has a
  non-empty list of methods. So \<open>emitCORSMiddleware\<close> appends the warning
  \<open>conditional CORS snippet was partially parsed; verify generated middleware\<close>
  exactly when the list of allowed headers is empty, before the warning it always
  appends, and the middleware it appends has a non-empty list of methods.
\<close>

theorem cors_methods_nonempty:
  assumes "parseConditionalCORSSnippet lines = Inr cfg"
  shows "AllowMethods cfg \<noteq> []
    \<and> (\<exists>h. emitCORSMiddleware ctx cfg =
          ctx\<lparr>Result := (Result ctx)\<lparr>
             Middlewares := Middlewares (Result ctx) @ [newHeadersMiddleware ctx ''cors'' h],
             Warnings := Warnings (Result ctx) @
               (if AllowHeaders cfg = []
                then [''conditional CORS snippet was partially parsed; verify generated middleware'']
                else []) @
               [''conditional NGINX CORS logic was converted to Traefik CORS middleware'']\<rparr>\<rparr>
          \<and> AccessControlAllowMethods h = AllowMethods cfg
          \<and> AccessControlAllowMethods h \<noteq> [])"
proof -
  from assms have ne: "AllowMethods cfg \<noteq> []"
    by (rule parseConditionalCORSSnippet_methods)
  let ?h = "zeroHeaders\<lparr>AccessControlAllowMethods := AllowMethods cfg,
                          AccessControlAllowHeaders := AllowHeaders cfg,
                          AccessControlAllowOriginListRegex := [OriginRegex cfg],
                          AccessControlMaxAge := MaxAge cfg,
                          AccessControlAllowCredentials :=
                            (case AllowCreds cfg of Some b \<Rightarrow> b | None \<Rightarrow> False)\<rparr>"
  have "emitCORSMiddleware ctx cfg =
          ctx\<lparr>Result := (Result ctx)\<lparr>
             Middlewares := Middlewares (Result ctx) @ [newHeadersMiddleware ctx ''cors'' ?h],
             Warnings := Warnings (Result ctx) @
               (if AllowHeaders cfg = []
                then [''conditional CORS snippet was partially parsed; verify generated middleware'']
                else []) @
               [''conditional NGINX CORS logic was converted to Traefik CORS middleware'']\<rparr>\<rparr>"
    using ne by (simp add: emitCORSMiddleware_eq)
  moreover have "AccessControlAllowMethods ?h = AllowMethods cfg"
    by simp
  ultimately show ?thesis
    using ne by metis
qed

theorem cors_methods_nonempty_witness:
  "parseConditionalCORSSnippet
     [''if ($http_origin ~* (https://a.example)) {'',
      ''add_header Access-Control-Allow-Methods '' @ [CHR 0x22] @ ''GET, POST'' @ [CHR 0x22] @ '';'']
   = Inr \<lparr>OriginRegex = ''https://a.example'', AllowHeaders = [],
          AllowMethods = [''GET'', ''POST''], AllowCreds = None, MaxAge = 0\<rparr>
   \<and> Warnings (Result (emitCORSMiddleware (snippetContext [])
        \<lparr>OriginRegex = ''https://a.example'', AllowHeaders = [],
         AllowMethods = [''GET'', ''POST''], AllowCreds = None, MaxAge = 0\<rparr>))
     = [''conditional CORS snippet was partially parsed; verify generated middleware'',
        ''conditional NGINX CORS logic was converted to Traefik CORS middleware'']"
proof -
  let ?cfg = "\<lparr>OriginRegex = ''https://a.example'', AllowHeaders = [],
              AllowMethods = [''GET'', ''POST''], AllowCreds = None, MaxAge = 0\<rparr>"
  have parsed: "parseConditionalCORSSnippet
     [''if ($http_origin ~* (https://a.example)) {'',
      ''add_header Access-Control-Allow-Methods '' @ [CHR 0x22] @ ''GET, POST'' @ [CHR 0x22] @ '';'']
     = Inr ?cfg"
    by code_simp
  from cors_methods_nonempty [OF parsed, of "snippetContext []"] parsed
  show ?thesis
    by (auto simp: snippetContext_def)
qed

text \<open>
  Claim C4. When an origin pattern is found and the loop over the lines leaves the
  list of methods empty, the configuration returned has the methods GET, POST, PUT,
  DELETE, OPTIONS, in this order, and so has the CORS middleware emitted from it.
\<close>

theorem cors_default_methods:
  assumes "extractOriginRegex lines = Some origin"
    and "AllowMethods (corsLoop origin lines) = []"
  shows "\<exists>cfg h. parseConditionalCORSSnippet lines = Inr cfg
      \<and> AllowMethods cfg = [''GET'', ''POST'', ''PUT'', ''DELETE'', ''OPTIONS'']
      \<and> Middlewares (Result (emitCORSMiddleware ctx cfg))
           = Middlewares (Result ctx) @ [newHeadersMiddleware ctx ''cors'' h]
      \<and> AccessControlAllowMethods h = [''GET'', ''POST'', ''PUT'', ''DELETE'', ''OPTIONS'']"
proof -
  let ?cfg = "(corsLoop origin lines)\<lparr>AllowMethods :=
                 [''GET'', ''POST'', ''PUT'', ''DELETE'', ''OPTIONS'']\<rparr>"
  from assms have "parseConditionalCORSSnippet lines = Inr ?cfg"
    by (simp add: parseConditionalCORSSnippet_def)
  moreover have "AllowMethods ?cfg = [''GET'', ''POST'', ''PUT'', ''DELETE'', ''OPTIONS'']"
    by simp
  moreover from emitCORSMiddleware_methods [of ctx ?cfg]
  have "\<exists>h. Middlewares (Result (emitCORSMiddleware ctx ?cfg))
           = Middlewares (Result ctx) @ [newHeadersMiddleware ctx ''cors'' h]
      \<and> AccessControlAllowMethods h = [''GET'', ''POST'', ''PUT'', ''DELETE'', ''OPTIONS'']"
    by simp
  ultimately show ?thesis
    by blast
qed

theorem cors_default_methods_witness:
  "AccessControlAllowMethods (SpecHeaders (last (Middlewares (Result
      (ConfigurationSnippet (snippetContext
         (''if ($http_origin ~* (https://a.example)) {'' @ [CHR 0x0A]
           @ ''add_header Access-Control-Allow-Methods GET;'' @ [CHR 0x0A] @ ''}'')))))))
   = [''GET'', ''POST'', ''PUT'', ''DELETE'', ''OPTIONS'']"
proof -
  let ?s = "''if ($http_origin ~* (https://a.example)) {'' @ [CHR 0x0A]
           @ ''add_header Access-Control-Allow-Methods GET;'' @ [CHR 0x0A] @ ''}''"
  have ann: "Annotations (snippetContext ?s)
               ''nginx.ingress.kubernetes.io/configuration-snippet'' = Some ?s"
    by (simp add: snippetContext_def)
  have det: "isConditionalCORSSnippet (splitLines ?s)"
    by code_simp
  have origin: "extractOriginRegex (splitLines ?s) = Some ''https://a.example''"
    by code_simp
  have none: "AllowMethods (corsLoop ''https://a.example'' (splitLines ?s)) = []"
    by code_simp
  from cors_default_methods [OF origin none, of "snippetContext ?s"]
  obtain cfg h where "parseConditionalCORSSnippet (splitLines ?s) = Inr cfg"
    and "Middlewares (Result (emitCORSMiddleware (snippetContext ?s) cfg))
           = Middlewares (Result (snippetContext ?s))
               @ [newHeadersMiddleware (snippetContext ?s) ''cors'' h]"
    and "AccessControlAllowMethods h = [''GET'', ''POST'', ''PUT'', ''DELETE'', ''OPTIONS'']"
    by blast
  with ConfigurationSnippet_cors_path [OF ann det] show ?thesis
    by (simp add: newHeadersMiddleware_def)
qed

subsection \<open>Determinism\<close>

lemma newHeadersMiddleware_cong:
  "IngressName c1 = IngressName c2 \<Longrightarrow> Namespace c1 = Namespace c2 \<Longrightarrow>
   newHeadersMiddleware c1 name h = newHeadersMiddleware c2 name h"
  by (simp add: newHeadersMiddleware_def mwName_def)

text \<open>
  Claim C8. The result of \<open>ConfigurationSnippet\<close> on a fresh result object is
  determined by the snippet text, the name and the namespace: two contexts that
  agree on these and both start from an empty result end with the same middlewares
  and the same warnings.
\<close>

theorem ConfigurationSnippet_deterministic:
  assumes "Annotations c1 ''nginx.ingress.kubernetes.io/configuration-snippet''
             = Annotations c2 ''nginx.ingress.kubernetes.io/configuration-snippet''"
    and "IngressName c1 = IngressName c2"
    and "Namespace c1 = Namespace c2"
    and "Result c1 = \<lparr>Middlewares = [], Warnings = []\<rparr>"
    and "Result c2 = \<lparr>Middlewares = [], Warnings = []\<rparr>"
  shows "Result (ConfigurationSnippet c1) = Result (ConfigurationSnippet c2)"
proof -
  have mw: "newHeadersMiddleware c1 name h = newHeadersMiddleware c2 name h" for name h
    using assms(2,3) by (rule newHeadersMiddleware_cong)
  have gen: "Result (convertGenericSnippet c1 lines) = Result (convertGenericSnippet c2 lines)"
    for lines
    using assms(4,5) by (simp add: convertGenericSnippet_def Let_def mw)
  have cors: "Result (emitCORSMiddleware c1 cfg) = Result (emitCORSMiddleware c2 cfg)" for cfg
    using assms(4,5) by (simp add: emitCORSMiddleware_eq mw)
  show ?thesis
    using assms(1,4,5) gen cors
    by (simp add: ConfigurationSnippet_def Let_def split: option.splits sum.splits)
qed


theorem ConfigurationSnippet_deterministic_witness:
  "Result (ConfigurationSnippet (snippetContext ''gzip on;''))
   = Result (ConfigurationSnippet
       ((snippetContext ''gzip on;'')\<lparr>Annotations :=
          [''nginx.ingress.kubernetes.io/configuration-snippet'' \<mapsto> ''gzip on;'',
           ''nginx.ingress.kubernetes.io/ssl-redirect'' \<mapsto> ''true'']\<rparr>))"
  using ConfigurationSnippet_deterministic
          [of "snippetContext ''gzip on;''"
              "(snippetContext ''gzip on;'')\<lparr>Annotations :=
                 [''nginx.ingress.kubernetes.io/configuration-snippet'' \<mapsto> ''gzip on;'',
                  ''nginx.ingress.kubernetes.io/ssl-redirect'' \<mapsto> ''true'']\<rparr>"]
  by (simp add: snippetContext_def)

subsection \<open>Single lines: quoted values, header directives, max-age\<close>

text \<open>
  What the code does on one line, for every line. \<open>extractQuotedHeaderValue\<close> returns
  the last segment in single quotes when there is one, and the last segment in
  double quotes on a line without a single quote. The loop of the generic pass
  appends \<open>failed to parse header directive\<close> for an \<open>add_header\<close> or
  \<open>more_set_headers\<close> line that \<open>parseResponseHeader\<close> rejects, and leaves its state
  as it is for a \<open>proxy_set_header\<close> line with fewer than three fields. A max-age
  line sets the field exactly when \<open>extractInt\<close> is positive, and \<open>ParseInt\<close>
  returns 0 with a syntax error.
\<close>

lemma Index_absent: "quote \<notin> set s \<Longrightarrow> Index s [quote] = None"
  by (induction s) (auto simp: HasPrefix_def)

lemma quotedValues_absent: "quote \<notin> set s \<Longrightarrow> quotedValues quote s = []"
  by (subst quotedValues.simps) (simp add: Index_absent)

lemma extractQuotedHeaderValue_single_wins:
  "quotedValues (CHR 0x27) line \<noteq> [] \<Longrightarrow>
   extractQuotedHeaderValue line = last (quotedValues (CHR 0x27) line)"
  by (simp add: extractQuotedHeaderValue_def Let_def del: quotedValues.simps)

lemma extractQuotedHeaderValue_double_only:
  "CHR 0x27 \<notin> set line \<Longrightarrow>
   extractQuotedHeaderValue line =
     (if quotedValues (CHR 0x22) line = [] then [] else last (quotedValues (CHR 0x22) line))"
  by (simp add: extractQuotedHeaderValue_def Let_def quotedValues_absent del: quotedValues.simps)

lemma directive_empty: "directive (ToLower []) = []"
  by (simp add: directive_def ToLower_def Fields_def)

lemma genericLine_response_header_failed:
  assumes "directive (ToLower (TrimSpace raw)) = ''add_header''
           \<or> directive (ToLower (TrimSpace raw)) = ''more_set_headers''"
    and "parseResponseHeader (TrimSpace raw) = None"
  shows "genericLine st raw =
     st\<lparr>warnings := warnings st @ [''failed to parse header directive: '' @ TrimSpace raw]\<rparr>"
proof -
  from assms(1) have "TrimSpace raw \<noteq> []"
    using directive_empty by auto
  with assms show ?thesis
    by (auto simp: genericLine_def Let_def)
qed

lemma genericLine_proxy_set_header_short:
  assumes "directive (ToLower (TrimSpace raw)) = ''proxy_set_header''"
    and "length (Fields (TrimSuffix (TrimSpace raw) '';'')) < 3"
  shows "genericLine st raw = st"
proof -
  from assms(1) have "TrimSpace raw \<noteq> []"
    using directive_empty by auto
  moreover from assms(2) have "parseProxySetHeader (TrimSpace raw) = ([], [])"
    by (simp add: parseProxySetHeader_def Let_def)
  ultimately show ?thesis
    using assms(1) by (simp add: genericLine_def Let_def)
qed

lemma ParseInt_syntax_error:
  "snd (ParseInt s) = Some ErrSyntax \<Longrightarrow> fst (ParseInt s) = 0"
  by (auto simp: ParseInt_def Let_def split: list.splits prod.splits if_splits)

lemma corsLine_max_age:
  assumes "\<not> Contains (ToLower (TrimSpace raw)) ''access-control-allow-headers''"
    and "\<not> Contains (ToLower (TrimSpace raw)) ''access-control-allow-methods''"
    and "\<not> Contains (ToLower (TrimSpace raw)) ''access-control-allow-credentials''"
    and "Contains (ToLower (TrimSpace raw)) ''access-control-max-age''"
  shows "corsLine cfg raw =
     (if 0 < extractInt (TrimSpace raw) then cfg\<lparr>MaxAge := extractInt (TrimSpace raw)\<rparr>
      else cfg)"
  using assms by (simp add: corsLine_def Let_def del: Contains.simps)

subsection \<open>Lines on which the code and the description part\<close>

text \<open>
  Claim C5 says that the value read from a CORS header line is the last quoted
  segment on the line. \<open>extractQuotedHeaderValue\<close> collects the segments in double
  quotes first and those in single quotes after them, so on a line whose header
  name is in single quotes and whose value is in double quotes it returns the
  header name: the methods of the emitted middleware are then the name of the
  header, not GET and POST.
\<close>

theorem extractQuotedHeaderValue_mixed_quotes:
  "extractQuotedHeaderValue
     (''add_header '' @ [CHR 0x27] @ ''Access-Control-Allow-Methods'' @ [CHR 0x27] @ '' ''
        @ [CHR 0x22] @ ''GET, POST'' @ [CHR 0x22] @ '';'')
   = ''Access-Control-Allow-Methods''
   \<and> AccessControlAllowMethods (SpecHeaders (last (Middlewares (Result
        (ConfigurationSnippet (snippetContext
           (''if ($http_origin ~* (https://a.example)) {'' @ [CHR 0x0A]
             @ ''add_header '' @ [CHR 0x27] @ ''Access-Control-Allow-Methods'' @ [CHR 0x27]
             @ '' '' @ [CHR 0x22] @ ''GET, POST'' @ [CHR 0x22] @ '';'' @ [CHR 0x0A]
             @ ''}'')))))))
     = [''Access-Control-Allow-Methods'']"
  by code_simp

text \<open>
  Claim C6 says that each malformed header line is dropped with a warning. A
  \<open>proxy_set_header\<close> line with fewer than three fields is dropped without one: the
  result stays empty. The \<open>add_header\<close> line with fewer than three fields, next to
  it, is dropped with the warning \<open>failed to parse header directive\<close>.
\<close>

theorem proxy_set_header_malformed_silent:
  "Result (ConfigurationSnippet (snippetContext ''proxy_set_header Host;''))
     = \<lparr>Middlewares = [], Warnings = []\<rparr>
   \<and> Result (ConfigurationSnippet (snippetContext ''add_header X-Test;''))
     = \<lparr>Middlewares = [],
        Warnings = [''failed to parse header directive: add_header X-Test;'']\<rparr>"
  by code_simp

text \<open>
  Claim C7 says that the max-age field is set only when the last token parses as
  a positive integer. \<open>extractInt\<close> drops the error of \<open>ParseInt\<close>; for a token
  of digits beyond the signed 64-bit range \<open>ParseInt\<close> returns a range error
  together with the largest signed 64-bit number, which is positive, and the
  max-age of the emitted middleware is that number.
\<close>

theorem extractInt_out_of_range:
  "ParseInt ''99999999999999999999'' = (9223372036854775807, Some ErrRange)
   \<and> extractInt ''add_header Access-Control-Max-Age 99999999999999999999;''
       = 9223372036854775807
   \<and> AccessControlMaxAge (SpecHeaders (last (Middlewares (Result
        (ConfigurationSnippet (snippetContext
           (''if ($http_origin ~* (https://a.example)) {'' @ [CHR 0x0A]
             @ ''add_header Access-Control-Allow-Methods GET;'' @ [CHR 0x0A]
             @ ''add_header Access-Control-Max-Age 99999999999999999999;'' @ [CHR 0x0A]
             @ ''}'')))))))
     = 9223372036854775807"
  by code_simp


end
